theory Spec2Isabelle
  imports Main "HOL-Library.AList" "HOL-Library.Sublist" "HOL-Library.Word"
begin

section \<open>The chat server (the Node.js part that follows the component in ChatApp.vue)\<close>

subsection \<open>JavaScript strings\<close>

text \<open>
  A JavaScript string is the list of its UTF-16 code units. A socket id, a display
  name, a message body and a time label are such strings. \<open>lit\<close> gives the string
  of an ASCII literal. The wall clock read by
  \<^verbatim>\<open>new Date().toLocaleTimeString(...)\<close> is an input of each handler (\<open>now\<close>).
\<close>

type_synonym code_unit = "16 word"

type_synonym jstring = "code_unit list"

definition lit :: "string \<Rightarrow> jstring" where
  "lit s = map of_char s"

subsection \<open>History events and the bounded history\<close>

text \<open>
  The objects \<^verbatim>\<open>joinEvent\<close>, \<^verbatim>\<open>messageEvent\<close> and \<^verbatim>\<open>leftEvent\<close>. Only
  \<^verbatim>\<open>leftEvent\<close> has the field \<^verbatim>\<open>totalUsers\<close>. The events carry no tag that
  tells a join from a leave from a chat message.
\<close>

record event =
  userId :: jstring
  userName :: jstring
  message :: jstring
  timestamp :: jstring
  totalUsers :: "nat option"

definition MAX_HISTORY :: nat where
  "MAX_HISTORY = 100"

text \<open>
  \<^verbatim>\<open>messageHistory.push(ev); if (messageHistory.length > MAX_HISTORY) messageHistory.shift();\<close>
  with the capacity as a parameter. \<^verbatim>\<open>shift\<close> removes the first element.
\<close>

definition push_history :: "nat \<Rightarrow> 'a \<Rightarrow> 'a list \<Rightarrow> 'a list" where
  "push_history cap ev h =
     (let h' = h @ [ev] in if length h' > cap then tl h' else h')"

definition push_all :: "nat \<Rightarrow> 'a list \<Rightarrow> 'a list \<Rightarrow> 'a list" where
  "push_all cap h evs = foldl (\<lambda>acc ev. push_history cap ev acc) h evs"

subsection \<open>Server state and what it emits\<close>

text \<open>
  \<^verbatim>\<open>users\<close> is a JavaScript \<^verbatim>\<open>Map\<close> from socket id to display name: an association
  list in insertion order, where \<^verbatim>\<open>set\<close> on a present key keeps the key's position
  (\<^const>\<open>AList.update\<close>) and \<^verbatim>\<open>delete\<close> removes the key (\<^const>\<open>AList.delete\<close>).
\<close>

record server =
  users :: "(jstring \<times> jstring) list"
  messageHistory :: "event list"

definition init_server :: server where
  "init_server = \<lparr>users = [], messageHistory = []\<rparr>"

datatype wire =
    Load_history "event list"
  | User_joined event
  | User_reconnected jstring jstring
  | Receive_message event
  | User_left event
  | Users_list "(jstring \<times> jstring) list"

text \<open>\<^verbatim>\<open>socket.emit\<close> reaches one socket, \<^verbatim>\<open>io.emit\<close> every connected socket.\<close>

datatype emission = Socket_emit jstring wire | Io_emit wire

subsection \<open>The handlers\<close>

definition connection :: "jstring \<Rightarrow> server \<Rightarrow> server \<times> emission list" where
  "connection sid s = (s, [Socket_emit sid (Load_history (messageHistory s))])"

definition joinEvent :: "jstring \<Rightarrow> jstring \<Rightarrow> jstring \<Rightarrow> event" where
  "joinEvent sid name now =
     \<lparr>userId = sid, userName = name, message = name @ (lit '' joined the chat''),
      timestamp = now, totalUsers = None\<rparr>"

definition user_join :: "jstring \<Rightarrow> jstring \<Rightarrow> jstring \<Rightarrow> server \<Rightarrow> server \<times> emission list" where
  "user_join sid now name s =
     (let userAlreadyExists = (name \<in> set (map snd (users s)));
          s1 = s\<lparr>users := AList.update sid name (users s)\<rparr>
      in if \<not> userAlreadyExists then
           (s1\<lparr>messageHistory := push_history MAX_HISTORY (joinEvent sid name now) (messageHistory s1)\<rparr>,
            [Io_emit (User_joined (joinEvent sid name now))])
         else (s1, [Io_emit (User_reconnected sid name)]))"

definition messageEvent :: "jstring \<Rightarrow> jstring \<Rightarrow> jstring \<Rightarrow> jstring \<Rightarrow> event" where
  "messageEvent sid name body now =
     \<lparr>userId = sid, userName = name, message = body, timestamp = now, totalUsers = None\<rparr>"

text \<open>
  \<^verbatim>\<open>if (userName)\<close> tests truthiness: \<^verbatim>\<open>undefined\<close> (no entry) and the empty string
  are both falsy.
\<close>

definition send_message :: "jstring \<Rightarrow> jstring \<Rightarrow> jstring \<Rightarrow> server \<Rightarrow> server \<times> emission list" where
  "send_message sid now body s =
     (case map_of (users s) sid of
        None \<Rightarrow> (s, [])
      | Some name \<Rightarrow>
          if name \<noteq> [] then
            (s\<lparr>messageHistory := push_history MAX_HISTORY (messageEvent sid name body now) (messageHistory s)\<rparr>,
             [Io_emit (Receive_message (messageEvent sid name body now))])
          else (s, []))"

definition get_users :: "jstring \<Rightarrow> server \<Rightarrow> server \<times> emission list" where
  "get_users sid s = (s, [Socket_emit sid (Users_list (users s))])"

text \<open>\<open>n\<close> is \<^verbatim>\<open>users.size\<close>, read after the entry is deleted.\<close>

definition leftEvent :: "jstring \<Rightarrow> jstring \<Rightarrow> jstring \<Rightarrow> nat \<Rightarrow> event" where
  "leftEvent sid name now n =
     \<lparr>userId = sid, userName = name, message = name @ (lit '' left the chat''),
      timestamp = now, totalUsers = Some n\<rparr>"

definition disconnect :: "jstring \<Rightarrow> jstring \<Rightarrow> server \<Rightarrow> server \<times> emission list" where
  "disconnect sid now s =
     (let found = map_of (users s) sid;
          s1 = s\<lparr>users := AList.delete sid (users s)\<rparr>
      in case found of
           None \<Rightarrow> (s1, [])
         | Some name \<Rightarrow>
             if name \<noteq> [] then
               (s1\<lparr>messageHistory :=
                     push_history MAX_HISTORY (leftEvent sid name now (length (users s1)))
                       (messageHistory s1)\<rparr>,
                [Io_emit (User_left (leftEvent sid name now (length (users s1))))])
             else (s1, []))"

subsection \<open>Runs of the server\<close>

datatype input =
    Connection jstring
  | User_join jstring jstring jstring
  | Send_message jstring jstring jstring
  | Get_users jstring
  | Disconnect jstring jstring

fun handle :: "input \<Rightarrow> server \<Rightarrow> server \<times> emission list" where
  "handle (Connection sid) s = connection sid s"
| "handle (User_join sid now name) s = user_join sid now name s"
| "handle (Send_message sid now body) s = send_message sid now body s"
| "handle (Get_users sid) s = get_users sid s"
| "handle (Disconnect sid now) s = disconnect sid now s"

fun run_server :: "input list \<Rightarrow> server \<Rightarrow> server \<times> emission list" where
  "run_server [] s = (s, [])"
| "run_server (i # is) s =
     (let (s1, out1) = handle i s; (s2, out2) = run_server is s1 in (s2, out1 @ out2))"

text \<open>The history events among the emissions: those broadcast as a join, a message or a leave.\<close>

fun logged :: "emission list \<Rightarrow> event list" where
  "logged [] = []"
| "logged (Io_emit (User_joined ev) # out) = ev # logged out"
| "logged (Io_emit (Receive_message ev) # out) = ev # logged out"
| "logged (Io_emit (User_left ev) # out) = ev # logged out"
| "logged (_ # out) = logged out"

section \<open>The chat client (script part of ChatApp.vue)\<close>

subsection \<open>String methods and plain objects\<close>

text \<open>
  \<^verbatim>\<open>String.prototype.trim\<close> removes white space and line terminators from both ends:
  TAB, LF, VT, FF, CR, SP, NBSP, U+1680, U+2000 to U+200A, LS (U+2028), PS (U+2029),
  U+202F, U+205F, U+3000 and ZWNBSP (U+FEFF). Each is one code unit.
\<close>

definition is_js_space :: "code_unit \<Rightarrow> bool" where
  "is_js_space c =
     (c \<in> set [0x9, 0xA, 0xB, 0xC, 0xD, 0x20, 0xA0, 0x1680,
                0x2000, 0x2001, 0x2002, 0x2003, 0x2004, 0x2005, 0x2006, 0x2007, 0x2008,
                0x2009, 0x200A, 0x2028, 0x2029, 0x202F, 0x205F, 0x3000, 0xFEFF])"

definition trim :: "jstring \<Rightarrow> jstring" where
  "trim s = rev (dropWhile is_js_space (rev (dropWhile is_js_space s)))"

text \<open>\<^verbatim>\<open>s.includes(sub)\<close> (\<open>includes\<close> is a keyword of Isabelle): \<open>sub\<close> occurs in \<open>s\<close> as a contiguous substring.\<close>

fun includes_str :: "'a list \<Rightarrow> 'a list \<Rightarrow> bool" where
  "includes_str [] sub = (sub = [])"
| "includes_str (c # cs) sub = (prefix sub (c # cs) \<or> includes_str cs sub)"

text \<open>
  A plain object used as a dictionary with string keys (\<^verbatim>\<open>const userJoins = {}\<close>), as
  the list of its own properties in creation order. Assigning to a present key keeps
  its position. Assigning a string to the key \<^verbatim>\<open>__proto__\<close> goes to the setter
  inherited from \<^verbatim>\<open>Object.prototype\<close>, which ignores a value that is not an object:
  no own property is created.
\<close>

definition obj_set :: "jstring \<Rightarrow> jstring \<Rightarrow> (jstring \<times> jstring) list \<Rightarrow> (jstring \<times> jstring) list" where
  "obj_set k v obj = (if k = (lit ''__proto__'') then obj else AList.update k v obj)"

definition obj_delete :: "jstring \<Rightarrow> (jstring \<times> jstring) list \<Rightarrow> (jstring \<times> jstring) list" where
  "obj_delete k obj = AList.delete k obj"

text \<open>
  \<^verbatim>\<open>Object.entries\<close> lists the keys that are array indices (canonical decimal numerals
  below \<open>2^32 - 1\<close>) first, in ascending numeric order, then the other keys in creation
  order.
\<close>

definition is_digit :: "code_unit \<Rightarrow> bool" where
  "is_digit c = (c \<in> set (lit ''0123456789''))"

definition int_of_digits :: "jstring \<Rightarrow> int" where
  "int_of_digits k = foldl (\<lambda>n c. 10 * n + (uint c - 48)) 0 k"

definition is_array_index :: "jstring \<Rightarrow> bool" where
  "is_array_index k =
     (k \<noteq> [] \<and> list_all is_digit k \<and> (k = (lit ''0'') \<or> hd k \<noteq> (48 :: code_unit))
      \<and> int_of_digits k < 4294967295)"

definition object_entries :: "(jstring \<times> jstring) list \<Rightarrow> (jstring \<times> jstring) list" where
  "object_entries obj =
     sort_key (\<lambda>(k, v). int_of_digits k) (filter (\<lambda>(k, v). is_array_index k) obj)
     @ filter (\<lambda>(k, v). \<not> is_array_index k) obj"

subsection \<open>Client state\<close>

text \<open>
  An element of \<^verbatim>\<open>messages\<close>: \<^verbatim>\<open>{type: 'system', message, timestamp}\<close> or
  \<^verbatim>\<open>{type: 'message', userId, userName, message, timestamp, isOwn}\<close>.
\<close>

datatype entry =
    System_entry jstring jstring
  | Message_entry jstring jstring jstring jstring bool

fun entry_timestamp :: "entry \<Rightarrow> jstring" where
  "entry_timestamp (System_entry msg ts) = ts"
| "entry_timestamp (Message_entry uid uname msg ts own) = ts"

text \<open>An element of \<^verbatim>\<open>users\<close>: \<^verbatim>\<open>{id, name}\<close>.\<close>

record user =
  user_id :: jstring
  user_name :: jstring

text \<open>
  The refs of the component. \<^verbatim>\<open>userName\<close> and \<^verbatim>\<open>users\<close> are named
  \<open>userName_ref\<close> and \<open>users_ref\<close> here, apart from the event field and the
  server's map of the same names.
\<close>

record client =
  userName_ref :: jstring
  messageInput :: jstring
  messages :: "entry list"
  users_ref :: "user list"
  isConnected :: bool
  loginPhase :: bool
  showConnectionModal :: bool
  showInitialConnectPrompt :: bool

text \<open>The initial values of the refs.\<close>

definition init_client :: client where
  "init_client =
     \<lparr>userName_ref = [], messageInput = [], messages = [], users_ref = [],
      isConnected = False, loginPhase = True, showConnectionModal = False,
      showInitialConnectPrompt = False\<rparr>"


subsection \<open>Functions of the component\<close>

definition nth_opt :: "'a list \<Rightarrow> nat \<Rightarrow> 'a option" where
  "nth_opt xs i = (if i < length xs then Some (xs ! i) else None)"

text \<open>
  \<^verbatim>\<open>messages.value[index]\<close> is \<^verbatim>\<open>undefined\<close> out of range; the template calls the
  function with the positions \<open>0 .. length - 1\<close> of \<^verbatim>\<open>v-for\<close>.
\<close>

definition shouldShowTimeSeparator :: "client \<Rightarrow> nat \<Rightarrow> bool" where
  "shouldShowTimeSeparator c index =
     (if index = 0 then False
      else case (nth_opt (messages c) index, nth_opt (messages c) (index - 1)) of
             (Some currentMsg, Some prevMsg) \<Rightarrow>
               entry_timestamp currentMsg \<noteq> entry_timestamp prevMsg
           | _ \<Rightarrow> False)"

definition joinChat :: "client \<Rightarrow> client" where
  "joinChat c =
     (if trim (userName_ref c) \<noteq> [] then
        c\<lparr>loginPhase := False, showInitialConnectPrompt := True\<rparr>
      else c)"



subsection \<open>Socket listeners of the client\<close>


text \<open>\<^verbatim>\<open>msg.message && msg.message.includes(w)\<close>: the empty string is falsy.\<close>

definition mentions :: "jstring \<Rightarrow> event \<Rightarrow> bool" where
  "mentions w msg = (message msg \<noteq> [] \<and> includes_str (message msg) w)"

text \<open>The body of \<^verbatim>\<open>history.forEach\<close>, on the pair of \<^verbatim>\<open>userJoins\<close> and \<^verbatim>\<open>userLefts\<close>.\<close>

definition replay_step ::
  "event \<Rightarrow> (jstring \<times> jstring) list \<times> jstring set \<Rightarrow> (jstring \<times> jstring) list \<times> jstring set" where
  "replay_step msg acc =
     (let (userJoins, userLefts) = acc in
      if mentions (lit ''joined'') msg then
        (obj_set (userName msg) (userId msg) userJoins, userLefts - {userName msg})
      else if mentions (lit ''left'') msg then
        (obj_delete (userName msg) userJoins, insert (userName msg) userLefts)
      else (userJoins, userLefts))"

definition replay :: "event list \<Rightarrow> (jstring \<times> jstring) list \<times> jstring set" where
  "replay history = foldl (\<lambda>acc msg. replay_step msg acc) ([], {}) history"

text \<open>The body of \<^verbatim>\<open>history.map\<close>; \<open>own\<close> is \<^verbatim>\<open>userName.value\<close>.\<close>

definition timeline_entry :: "jstring \<Rightarrow> event \<Rightarrow> entry" where
  "timeline_entry own msg =
     (if message msg \<noteq> [] \<and> (includes_str (message msg) (lit ''joined'') \<or> includes_str (message msg) (lit ''left''))
      then System_entry (message msg) (timestamp msg)
      else Message_entry (userId msg) (userName msg) (message msg) (timestamp msg)
             (userName msg = own))"

definition on_load_history :: "event list \<Rightarrow> client \<Rightarrow> client" where
  "on_load_history history c =
     (let (userJoins, userLefts) = replay history in
      c\<lparr>users_ref := map (\<lambda>(name, id). \<lparr>user_id = id, user_name = name\<rparr>)
                        (object_entries userJoins),
        messages := map (timeline_entry (userName_ref c)) history\<rparr>)"








text \<open>The online names of a client state, each with its connection id.\<close>

definition online :: "client \<Rightarrow> jstring \<rightharpoonup> jstring" where
  "online c = map_of (map (\<lambda>u. (user_name u, user_id u)) (users_ref c))"

section \<open>String literals\<close>

lemma lit_Nil [simp]: "lit [] = []"
  by (simp add: lit_def)

lemma lit_Cons [simp]: "lit (c # cs) = of_char c # lit cs"
  by (simp add: lit_def)

lemma lit_append: "lit (a @ b) = lit a @ lit b"
  by (simp add: lit_def)

section \<open>Properties of the bounded history\<close>

lemma push_history_drop:
  assumes "length h \<le> cap"
  shows "push_history cap ev h = drop (Suc (length h) - cap) (h @ [ev])"
proof (cases "length h < cap")
  case True
  then show ?thesis by (simp add: push_history_def Let_def)
next
  case False
  with assms have "length h = cap" by simp
  then show ?thesis by (cases h) (simp_all add: push_history_def Let_def drop_Suc)
qed

lemma push_history_length:
  "length h \<le> cap \<Longrightarrow> length (push_history cap ev h) \<le> cap"
  by (simp add: push_history_def Let_def)

lemma push_all_length:
  "length h \<le> cap \<Longrightarrow> length (push_all cap h evs) \<le> cap"
  unfolding push_all_def
  by (induction evs arbitrary: h) (simp_all add: push_history_length)

lemma push_all_snoc:
  "push_all cap h (evs @ [ev]) = push_history cap ev (push_all cap h evs)"
  by (simp add: push_all_def)

lemma push_all_drop:
  "length h \<le> cap \<Longrightarrow> push_all cap h evs = drop (length h + length evs - cap) (h @ evs)"
proof (induction evs rule: rev_induct)
  case Nil
  then show ?case by (simp add: push_all_def)
next
  case (snoc ev evs)
  define xs where "xs = h @ evs"
  define k where "k = length xs - cap"
  have eq: "push_all cap h evs = drop k xs"
    using snoc by (simp add: xs_def k_def)
  have len: "length (drop k xs) \<le> cap"
    by (simp add: k_def)
  have kle: "k \<le> length xs"
    by (simp add: k_def)
  have "push_all cap h (evs @ [ev]) = push_history cap ev (drop k xs)"
    by (simp add: push_all_snoc eq)
  also have "\<dots> = drop (Suc (length (drop k xs)) - cap) (drop k xs @ [ev])"
    using len by (rule push_history_drop)
  also have "drop k xs @ [ev] = drop k (xs @ [ev])"
    using kle by simp
  also have "drop (Suc (length (drop k xs)) - cap) (drop k (xs @ [ev]))
             = drop (Suc (length (drop k xs)) - cap + k) (xs @ [ev])"
    by (rule drop_drop)
  also have "Suc (length (drop k xs)) - cap + k = Suc (length xs) - cap"
    by (simp add: k_def)
  finally show ?case by (simp add: xs_def)
qed

lemma logged_append: "logged (a @ b) = logged a @ logged b"
  by (induction a rule: logged.induct) simp_all

lemma push_all_append: "push_all cap h (a @ b) = push_all cap (push_all cap h a) b"
  by (simp add: push_all_def)

lemma handle_history:
  "messageHistory (fst (handle i s)) =
     push_all MAX_HISTORY (messageHistory s) (logged (snd (handle i s)))"
  by (cases i)
     (simp_all add: connection_def user_join_def send_message_def get_users_def
        disconnect_def push_all_def Let_def split: option.split)

lemma run_server_history:
  "messageHistory (fst (run_server inputs s)) =
     push_all MAX_HISTORY (messageHistory s) (logged (snd (run_server inputs s)))"
proof (induction inputs arbitrary: s)
  case Nil
  show ?case by (simp add: push_all_def)
next
  case (Cons i inputs)
  obtain s1 out1 where h: "handle i s = (s1, out1)" by (cases "handle i s")
  obtain s2 out2 where r: "run_server inputs s1 = (s2, out2)" by (cases "run_server inputs s1")
  have "messageHistory s1 = push_all MAX_HISTORY (messageHistory s) (logged out1)"
    using handle_history [of i s] h by simp
  moreover have "messageHistory s2 = push_all MAX_HISTORY (messageHistory s1) (logged out2)"
    using Cons.IH [of s1] r by simp
  ultimately show ?case
    using h r by (simp add: logged_append push_all_append)
qed

text \<open>
  C1. Whatever the server receives (joins, messages, disconnects, in any order and
  number), the history holds at most \<open>MAX_HISTORY = 100\<close> events, and it is the last
  100 of the events that were appended (each of them is also the one broadcast), in
  their order: what is evicted is the oldest. The same holds of any sequence of appends
  at any capacity, and at capacity 2 the appends A, B, C leave [B, C].
\<close>

theorem history_bounded_fifo:
  "length (messageHistory (fst (run_server inputs init_server))) \<le> MAX_HISTORY
   \<and> MAX_HISTORY = 100
   \<and> messageHistory (fst (run_server inputs init_server)) =
       drop (length (logged (snd (run_server inputs init_server))) - MAX_HISTORY)
         (logged (snd (run_server inputs init_server)))
   \<and> length (push_all cap [] evs) \<le> cap
   \<and> push_all cap [] evs = drop (length evs - cap) evs
   \<and> push_all 2 [] [A, B, C] = [B, C]"
proof -
  have run: "messageHistory (fst (run_server inputs init_server)) =
      push_all MAX_HISTORY [] (logged (snd (run_server inputs init_server)))"
    using run_server_history [of inputs init_server] by (simp add: init_server_def)
  have a: "length (messageHistory (fst (run_server inputs init_server))) \<le> MAX_HISTORY"
    unfolding run by (rule push_all_length) simp
  have b: "messageHistory (fst (run_server inputs init_server)) =
       drop (length (logged (snd (run_server inputs init_server))) - MAX_HISTORY)
         (logged (snd (run_server inputs init_server)))"
    unfolding run by (simp add: push_all_drop)
  have c: "length (push_all cap [] evs) \<le> cap"
    by (rule push_all_length) simp
  have d: "push_all cap [] evs = drop (length evs - cap) evs"
    by (simp add: push_all_drop)
  have e: "push_all 2 [] [A, B, C] = [B, C]"
    by (simp add: push_all_def push_history_def)
  from a b c d e show ?thesis by (simp add: MAX_HISTORY_def)
qed

theorem history_bounded_fifo_witness:
  "length (messageHistory (fst (run_server
      [User_join (lit ''s1'') (lit ''10:00 AM'') (lit ''alice''), Send_message (lit ''s1'') (lit ''10:01 AM'') (lit ''hi'')]
      init_server))) \<le> MAX_HISTORY
   \<and> push_all 1 [] [1::nat, 2, 3] = drop (length [1::nat, 2, 3] - 1) [1, 2, 3]
   \<and> push_all 2 [] [lit ''A'', lit ''B'', lit ''C''] = [lit ''B'', lit ''C'']"
  using history_bounded_fifo
    [of "[User_join (lit ''s1'') (lit ''10:00 AM'') (lit ''alice''), Send_message (lit ''s1'') (lit ''10:01 AM'') (lit ''hi'')]"
        1 "[1::nat, 2, 3]" "lit ''A''" "lit ''B''" "lit ''C''"]
  by blast

section \<open>Properties of the server's handlers\<close>

lemma push_history_cases:
  "push_history cap ev h = (if length h < cap then h @ [ev] else tl (h @ [ev]))"
  by (auto simp add: push_history_def Let_def)

text \<open>The registry is a map: no socket id has two entries, in any state the server reaches.\<close>

lemma handle_distinct_users:
  "distinct (map fst (users s)) \<Longrightarrow> distinct (map fst (users (fst (handle i s))))"
  by (cases i)
     (simp_all add: connection_def user_join_def send_message_def get_users_def disconnect_def
        Let_def AList.distinct_update AList.distinct_delete split: option.split)

lemma run_server_distinct_users:
  "distinct (map fst (users s)) \<Longrightarrow> distinct (map fst (users (fst (run_server inputs s))))"
proof (induction inputs arbitrary: s)
  case Nil
  then show ?case by simp
next
  case (Cons i inputs)
  from Cons.prems have "distinct (map fst (users (fst (handle i s))))"
    by (rule handle_distinct_users)
  then have "distinct (map fst (users (fst (run_server inputs (fst (handle i s))))))"
    by (rule Cons.IH)
  then show ?case
    by (simp add: case_prod_beta Let_def)
qed

text \<open>
  C3. When no entry of the registry holds the announced name, \<open>user_join\<close> registers
  (socket id, name), appends exactly one join event to the history (pushing out the
  oldest event when the history is full) and broadcasts that same event, and nothing
  else, to every connected socket.
\<close>

theorem user_join_new_name:
  assumes "name \<notin> snd ` set (users s)"
  shows "user_join sid now name s =
           (s\<lparr>users := AList.update sid name (users s),
              messageHistory := push_history MAX_HISTORY (joinEvent sid name now) (messageHistory s)\<rparr>,
            [Io_emit (User_joined (joinEvent sid name now))])
    \<and> map_of (users (fst (user_join sid now name s))) = (map_of (users s))(sid \<mapsto> name)
    \<and> messageHistory (fst (user_join sid now name s)) =
        (if length (messageHistory s) < MAX_HISTORY then messageHistory s @ [joinEvent sid name now]
         else tl (messageHistory s @ [joinEvent sid name now]))
    \<and> userId (joinEvent sid name now) = sid \<and> userName (joinEvent sid name now) = name"
  using assms
  by (simp add: user_join_def Let_def AList.update_conv' push_history_cases joinEvent_def)

theorem user_join_new_name_witness:
  "(lit ''alice'') \<notin> snd ` set (users init_server)
   \<and> user_join (lit ''s1'') (lit ''10:00 AM'') (lit ''alice'') init_server =
       (\<lparr>users = [(lit ''s1'', lit ''alice'')],
         messageHistory = [joinEvent (lit ''s1'') (lit ''alice'') (lit ''10:00 AM'')]\<rparr>,
        [Io_emit (User_joined (joinEvent (lit ''s1'') (lit ''alice'') (lit ''10:00 AM'')))])"
  using user_join_new_name [of "lit ''alice''" init_server "lit ''s1''" "lit ''10:00 AM''"]
  by (simp add: init_server_def push_history_def MAX_HISTORY_def)

text \<open>
  C4. When some entry of the registry already holds the announced name, \<open>user_join\<close>
  registers (socket id, name), broadcasts a reconnect event with the socket id and the
  name, and leaves the history as it was.
\<close>

theorem user_join_name_in_use:
  assumes "name \<in> snd ` set (users s)"
  shows "user_join sid now name s =
           (s\<lparr>users := AList.update sid name (users s)\<rparr>,
            [Io_emit (User_reconnected sid name)])
    \<and> map_of (users (fst (user_join sid now name s))) = (map_of (users s))(sid \<mapsto> name)
    \<and> messageHistory (fst (user_join sid now name s)) = messageHistory s"
  using assms
  by (simp add: user_join_def Let_def AList.update_conv')

theorem user_join_name_in_use_witness:
  "(lit ''alice'') \<in> snd ` set (users \<lparr>users = [(lit ''s1'', lit ''alice'')], messageHistory = []\<rparr>)
   \<and> user_join (lit ''s2'') (lit ''10:00 AM'') (lit ''alice'') \<lparr>users = [(lit ''s1'', lit ''alice'')], messageHistory = []\<rparr> =
       (\<lparr>users = [(lit ''s1'', lit ''alice''), (lit ''s2'', lit ''alice'')], messageHistory = []\<rparr>,
        [Io_emit (User_reconnected (lit ''s2'') (lit ''alice''))])"
  using user_join_name_in_use
    [of "lit ''alice''" "\<lparr>users = [(lit ''s1'', lit ''alice'')], messageHistory = []\<rparr>" "lit ''s2''" "lit ''10:00 AM''"]
  by simp

text \<open>
  C2, as the claim states it, fails: the server's \<open>user_join\<close> does not look at the
  name. Announced on the empty server, the name of three spaces (empty after trimming)
  and the empty name are each registered, logged and broadcast.
\<close>

theorem user_join_blank_counterexample:
  "trim (lit ''   '') = [] \<and> trim [] = []
   \<and> user_join (lit ''s1'') (lit ''10:00 AM'') (lit ''   '') init_server =
       (\<lparr>users = [(lit ''s1'', lit ''   '')], messageHistory = [joinEvent (lit ''s1'') (lit ''   '') (lit ''10:00 AM'')]\<rparr>,
        [Io_emit (User_joined (joinEvent (lit ''s1'') (lit ''   '') (lit ''10:00 AM'')))])
   \<and> user_join (lit ''s1'') (lit ''10:00 AM'') [] init_server =
       (\<lparr>users = [(lit ''s1'', [])], messageHistory = [joinEvent (lit ''s1'') [] (lit ''10:00 AM'')]\<rparr>,
        [Io_emit (User_joined (joinEvent (lit ''s1'') [] (lit ''10:00 AM'')))])"
  by (simp add: trim_def is_js_space_def user_join_def init_server_def push_history_def
        MAX_HISTORY_def Let_def)

text \<open>
  C2, amended. A display name that is empty or whitespace-only after trimming is
  rejected silently by the client's \<open>joinChat\<close>, which leaves the client state
  unchanged; on any other name \<open>joinChat\<close> leaves the login phase. The server's
  \<open>user_join\<close> does not test the name: for every name, blank or not, it registers
  (socket id, name) and emits to all clients exactly one event and nothing else, a
  join event, also appended to the history, when no entry of the registry held the
  name, and a reconnect event, with the history unchanged, otherwise.
\<close>

theorem blank_name_rejected_by_joinChat:
  "(trim (userName_ref c) = [] \<longrightarrow> joinChat c = c)
   \<and> (trim (userName_ref c) \<noteq> [] \<longrightarrow>
        joinChat c = c\<lparr>loginPhase := False, showInitialConnectPrompt := True\<rparr>)
   \<and> user_join sid now name s =
       (if name \<in> snd ` set (users s) then
          (s\<lparr>users := AList.update sid name (users s)\<rparr>,
           [Io_emit (User_reconnected sid name)])
        else
          (s\<lparr>users := AList.update sid name (users s),
             messageHistory :=
               push_history MAX_HISTORY (joinEvent sid name now) (messageHistory s)\<rparr>,
           [Io_emit (User_joined (joinEvent sid name now))]))"
  by (simp add: joinChat_def user_join_def Let_def)

theorem blank_name_rejected_by_joinChat_witness:
  "trim (userName_ref (init_client\<lparr>userName_ref := [0x3000, 0x20, 0x9]\<rparr>)) = []
   \<and> joinChat (init_client\<lparr>userName_ref := [0x3000, 0x20, 0x9]\<rparr>)
       = init_client\<lparr>userName_ref := [0x3000, 0x20, 0x9]\<rparr>
   \<and> trim (userName_ref (init_client\<lparr>userName_ref := lit '' bob ''\<rparr>)) \<noteq> []
   \<and> \<not> loginPhase (joinChat (init_client\<lparr>userName_ref := lit '' bob ''\<rparr>))
   \<and> trim [0x3000, 0x20, 0x9] = []
   \<and> user_join (lit ''s1'') (lit ''10:00 AM'') [0x3000, 0x20, 0x9] init_server =
       (\<lparr>users = [(lit ''s1'', [0x3000, 0x20, 0x9])],
         messageHistory = [joinEvent (lit ''s1'') [0x3000, 0x20, 0x9] (lit ''10:00 AM'')]\<rparr>,
        [Io_emit (User_joined (joinEvent (lit ''s1'') [0x3000, 0x20, 0x9] (lit ''10:00 AM'')))])"
  using blank_name_rejected_by_joinChat
    [of "init_client\<lparr>userName_ref := [0x3000, 0x20, 0x9]\<rparr>"
        "lit ''s1''" "lit ''10:00 AM''" "[0x3000, 0x20, 0x9]" init_server]
    blank_name_rejected_by_joinChat [of "init_client\<lparr>userName_ref := lit '' bob ''\<rparr>"]
  by (simp add: trim_def is_js_space_def init_client_def init_server_def push_history_def
        MAX_HISTORY_def)

text \<open>
  C5, as the claim states it, fails for a connection registered under the empty name:
  its entry is removed, and no leave event is logged or broadcast.
\<close>

theorem disconnect_empty_name_counterexample:
  "map_of (users (fst (user_join (lit ''s1'') (lit ''10:00 AM'') [] init_server))) (lit ''s1'') = Some []
   \<and> disconnect (lit ''s1'') (lit ''10:05 AM'') (fst (user_join (lit ''s1'') (lit ''10:00 AM'') [] init_server)) =
       (\<lparr>users = [], messageHistory = [joinEvent (lit ''s1'') [] (lit ''10:00 AM'')]\<rparr>, [])"
  by (simp add: user_join_def disconnect_def init_server_def push_history_def MAX_HISTORY_def
        Let_def)

text \<open>
  C5, amended. On a disconnect the entry of that socket id, and no other, leaves the
  registry. If the connection was registered under a non-empty name, exactly one leave
  event is appended to the history and broadcast; if it was not registered, nothing is
  logged or broadcast and the state is unchanged.
\<close>

theorem disconnect_named_or_unnamed:
  "(map_of (users s) sid = Some name \<and> name \<noteq> [] \<longrightarrow>
      disconnect sid now s =
        (s\<lparr>users := AList.delete sid (users s),
           messageHistory :=
             push_history MAX_HISTORY (leftEvent sid name now (length (AList.delete sid (users s))))
               (messageHistory s)\<rparr>,
         [Io_emit (User_left (leftEvent sid name now (length (AList.delete sid (users s)))))]))
   \<and> (map_of (users s) sid = None \<longrightarrow> disconnect sid now s = (s, []))
   \<and> map_of (users (fst (disconnect sid now s))) = (map_of (users s))(sid := None)"
proof -
  have "AList.delete sid (users s) = users s" if "map_of (users s) sid = None"
    using that by (simp add: map_of_eq_None_iff)
  then show ?thesis
    by (auto simp add: disconnect_def Let_def AList.delete_conv' split: option.split)
qed

theorem disconnect_named_or_unnamed_witness:
  "map_of (users \<lparr>users = [(lit ''s1'', lit ''alice''), (lit ''s2'', lit ''bob'')], messageHistory = []\<rparr>) (lit ''s1'')
     = Some (lit ''alice'')
   \<and> (lit ''alice'') \<noteq> []
   \<and> disconnect (lit ''s1'') (lit ''10:05 AM'') \<lparr>users = [(lit ''s1'', lit ''alice''), (lit ''s2'', lit ''bob'')], messageHistory = []\<rparr> =
       (\<lparr>users = [(lit ''s2'', lit ''bob'')], messageHistory = [leftEvent (lit ''s1'') (lit ''alice'') (lit ''10:05 AM'') 1]\<rparr>,
        [Io_emit (User_left (leftEvent (lit ''s1'') (lit ''alice'') (lit ''10:05 AM'') 1))])
   \<and> map_of (users init_server) (lit ''s1'') = None
   \<and> disconnect (lit ''s1'') (lit ''10:05 AM'') init_server = (init_server, [])"
  using disconnect_named_or_unnamed
    [of "\<lparr>users = [(lit ''s1'', lit ''alice''), (lit ''s2'', lit ''bob'')], messageHistory = []\<rparr>" "lit ''s1''"
        "lit ''alice''" "lit ''10:05 AM''"]
    disconnect_named_or_unnamed [of init_server "lit ''s1''" "lit ''alice''" "lit ''10:05 AM''"]
  by (simp add: init_server_def push_history_def MAX_HISTORY_def)

text \<open>
  C6, as the claim states it, fails for a connection registered under the empty name:
  its message is dropped.
\<close>

theorem send_message_empty_name_counterexample:
  "map_of (users (fst (user_join (lit ''s1'') (lit ''10:00 AM'') [] init_server))) (lit ''s1'') = Some []
   \<and> send_message (lit ''s1'') (lit ''10:05 AM'') (lit ''hi'') (fst (user_join (lit ''s1'') (lit ''10:00 AM'') [] init_server)) =
       (fst (user_join (lit ''s1'') (lit ''10:00 AM'') [] init_server), [])"
  by (simp add: user_join_def send_message_def init_server_def push_history_def MAX_HISTORY_def
        Let_def)

text \<open>
  C6, amended. A message from a socket id with no entry in the registry is dropped:
  the state is unchanged and nothing is emitted, to the sender or to anyone. For a
  connection registered under a non-empty name, exactly one message event with that
  name and the body is appended to the history and broadcast. The registry is never
  changed.
\<close>

theorem send_message_routed_or_dropped:
  "(map_of (users s) sid = None \<longrightarrow> send_message sid now body s = (s, []))
   \<and> (map_of (users s) sid = Some name \<and> name \<noteq> [] \<longrightarrow>
        send_message sid now body s =
          (s\<lparr>messageHistory :=
                push_history MAX_HISTORY (messageEvent sid name body now) (messageHistory s)\<rparr>,
           [Io_emit (Receive_message (messageEvent sid name body now))])
        \<and> userName (messageEvent sid name body now) = name
        \<and> message (messageEvent sid name body now) = body)
   \<and> users (fst (send_message sid now body s)) = users s"
  by (auto simp add: send_message_def messageEvent_def split: option.split)

theorem send_message_routed_or_dropped_witness:
  "map_of (users init_server) (lit ''s1'') = None
   \<and> send_message (lit ''s1'') (lit ''10:05 AM'') (lit ''hi'') init_server = (init_server, [])
   \<and> map_of (users \<lparr>users = [(lit ''s1'', lit ''alice'')], messageHistory = []\<rparr>) (lit ''s1'') = Some (lit ''alice'')
   \<and> (lit ''alice'') \<noteq> []
   \<and> send_message (lit ''s1'') (lit ''10:05 AM'') (lit ''hi'') \<lparr>users = [(lit ''s1'', lit ''alice'')], messageHistory = []\<rparr> =
       (\<lparr>users = [(lit ''s1'', lit ''alice'')],
         messageHistory = [messageEvent (lit ''s1'') (lit ''alice'') (lit ''hi'') (lit ''10:05 AM'')]\<rparr>,
        [Io_emit (Receive_message (messageEvent (lit ''s1'') (lit ''alice'') (lit ''hi'') (lit ''10:05 AM'')))])"
  using send_message_routed_or_dropped [of init_server "lit ''s1''" "lit ''10:05 AM''" "lit ''hi''" "lit ''alice''"]
    send_message_routed_or_dropped
      [of "\<lparr>users = [(lit ''s1'', lit ''alice'')], messageHistory = []\<rparr>" "lit ''s1''" "lit ''10:05 AM''" "lit ''hi''"
          "lit ''alice''"]
  by (simp add: init_server_def push_history_def MAX_HISTORY_def)

section \<open>Properties of the client\<close>

subsection \<open>Replaying a snapshot\<close>

lemma includes_str_sublist: "includes_str s sub = sublist sub s"
  by (induction s) (simp_all add: sublist_Cons_right)

lemma set_object_entries: "set (object_entries obj) = set obj"
  by (auto simp add: object_entries_def)

lemma distinct_object_entries:
  assumes "distinct (map fst obj)"
  shows "distinct (map fst (object_entries obj))"
proof -
  from assms have d: "distinct obj" and i: "inj_on fst (set obj)"
    by (simp_all add: distinct_map)
  have "distinct (object_entries obj)"
    using d by (auto simp add: object_entries_def)
  with i show ?thesis
    by (simp add: distinct_map set_object_entries)
qed

lemma map_of_object_entries:
  assumes "distinct (map fst obj)"
  shows "map_of (object_entries obj) = map_of obj"
  using assms distinct_object_entries [OF assms]
  by (simp add: map_of_inject_set set_object_entries)

lemma replay_snoc: "replay (history @ [msg]) = replay_step msg (replay history)"
  by (simp add: replay_def)

lemma distinct_replay_step:
  "distinct (map fst (fst acc)) \<Longrightarrow> distinct (map fst (fst (replay_step msg acc)))"
  by (cases acc)
     (simp add: replay_step_def obj_set_def obj_delete_def AList.distinct_update
        AList.distinct_delete)

lemma distinct_replay: "distinct (map fst (fst (replay history)))"
proof (induction history rule: rev_induct)
  case Nil
  show ?case by (simp add: replay_def)
next
  case (snoc msg history)
  then show ?case by (simp add: replay_snoc distinct_replay_step)
qed

lemma online_on_load_history:
  "online (on_load_history history c) = map_of (fst (replay history))"
proof -
  obtain userJoins userLefts where r: "replay history = (userJoins, userLefts)"
    by (cases "replay history")
  have "map (\<lambda>u. (user_name u, user_id u))
          (map (\<lambda>(name, id). \<lparr>user_id = id, user_name = name\<rparr>) (object_entries userJoins))
        = object_entries userJoins"
    by (simp add: comp_def case_prod_beta)
  moreover have "distinct (map fst userJoins)"
    using distinct_replay [of history] r by simp
  ultimately show ?thesis
    using r by (simp add: online_def on_load_history_def map_of_object_entries)
qed

lemma map_of_replay_step:
  "map_of (fst (replay_step msg acc)) =
     (if mentions (lit ''joined'') msg then
        (if userName msg = (lit ''__proto__'') then map_of (fst acc)
         else (map_of (fst acc))(userName msg \<mapsto> userId msg))
      else if mentions (lit ''left'') msg then (map_of (fst acc))(userName msg := None)
      else map_of (fst acc))"
  by (cases acc)
     (simp add: replay_step_def obj_set_def obj_delete_def AList.update_conv' AList.delete_conv')

lemma messages_on_load_history:
  "messages (on_load_history history c) = map (timeline_entry (userName_ref c)) history"
  by (cases "replay history") (simp add: on_load_history_def)

lemma timeline_entry_mentions:
  "timeline_entry own msg =
     (if mentions (lit ''joined'') msg \<or> mentions (lit ''left'') msg
      then System_entry (message msg) (timestamp msg)
      else Message_entry (userId msg) (userName msg) (message msg) (timestamp msg)
             (userName msg = own))"
  by (auto simp add: timeline_entry_def mentions_def)

subsection \<open>How the server's events read to the client\<close>

lemma mentions_joinEvent: "mentions (lit ''joined'') (joinEvent sid name now)"
proof -
  have "sublist (lit ''joined'') ((name @ (lit '' '')) @ (lit ''joined'') @ (lit '' the chat''))"
    by (rule sublist_appendI)
  then show ?thesis
    by (simp add: mentions_def joinEvent_def includes_str_sublist)
qed

lemma mentions_left_leftEvent: "mentions (lit ''left'') (leftEvent sid name now n)"
proof -
  have "sublist (lit ''left'') ((name @ (lit '' '')) @ (lit ''left'') @ (lit '' the chat''))"
    by (rule sublist_appendI)
  then show ?thesis
    by (simp add: mentions_def leftEvent_def includes_str_sublist)
qed

lemma joined_not_in_left_text: "\<not> includes_str (lit '' left the chat'') (lit ''joined'')"
  by simp

lemma mentions_joined_leftEvent:
  "mentions (lit ''joined'') (leftEvent sid name now n) = includes_str name (lit ''joined'')"
proof -
  have within_name: "sublist (lit ''joined'') name"
    if h: "sublist (lit ''joined'') (name @ (lit '' left the chat''))"
  proof -
    from h consider (a) "sublist (lit ''joined'') name" | (b) "sublist (lit ''joined'') (lit '' left the chat'')"
      | (c) xs1 xs2 where "(lit ''joined'') = xs1 @ xs2" "suffix xs1 name"
          "prefix xs2 (lit '' left the chat'')"
      unfolding sublist_append by blast
    then show ?thesis
    proof cases
      case a
      then show ?thesis .
    next
      case b
      then show ?thesis
        using joined_not_in_left_text unfolding includes_str_sublist by blast
    next
      case c
      show ?thesis
      proof (cases xs2)
        case Nil
        with c(1,2) show ?thesis by (simp add: suffix_imp_sublist)
      next
        case (Cons x xs)
        with c(3) have "x = (32 :: code_unit)" by (simp add: prefix_Cons)
        with Cons have "(32 :: code_unit) \<in> set xs2" by simp
        moreover have "set xs2 \<subseteq> set (lit ''joined'')"
          unfolding c(1) by simp
        ultimately have "(32 :: code_unit) \<in> set (lit ''joined'')" by blast
        then show ?thesis by simp
      qed
    qed
  qed
  have "sublist (lit ''joined'') (name @ (lit '' left the chat'')) = sublist (lit ''joined'') name"
    using within_name sublist_append by blast
  then show ?thesis
    by (simp add: mentions_def leftEvent_def includes_str_sublist)
qed

text \<open>
  C7, as the claim states it, fails: the events carry no tag and the client reads the
  message text. After bob joins and sends the chat message "alice left", the replay
  shows that message as a system entry and takes bob out of the online list.
\<close>

theorem message_text_counterexample:
  "on_load_history
     (messageHistory (fst (run_server
        [User_join (lit ''s1'') (lit ''10:00 AM'') (lit ''bob''), Send_message (lit ''s1'') (lit ''10:01 AM'') (lit ''alice left'')]
        init_server)))
     (init_client\<lparr>userName_ref := lit ''bob''\<rparr>)
   = init_client\<lparr>userName_ref := lit ''bob'',
       users_ref := [],
       messages := [System_entry (lit ''bob joined the chat'') (lit ''10:00 AM''),
                    System_entry (lit ''alice left'') (lit ''10:01 AM'')]\<rparr>"
  by (simp add: init_server_def init_client_def user_join_def send_message_def Let_def
      push_history_def MAX_HISTORY_def joinEvent_def messageEvent_def
      on_load_history_def replay_def replay_step_def mentions_def obj_set_def obj_delete_def
      object_entries_def is_array_index_def is_digit_def int_of_digits_def timeline_entry_def)

text \<open>
  C7, amended. For every received snapshot the client classifies each event by the
  text of its \<open>message\<close> field. The timeline has one entry per event, in order: a
  system entry when the text contains "joined" or "left", otherwise a chat-bubble entry
  with \<open>isOwn\<close> exactly when the event's \<open>userName\<close> is the local user's chosen
  name. The online set is built event by event: a text containing "joined" records
  (\<open>userName\<close> to \<open>userId\<close>), unless the name is \<^verbatim>\<open>__proto__\<close>; otherwise a text
  containing "left" removes \<open>userName\<close>; any other event leaves the set as it is.
  So every join event of the server is read as a join; a leave event is read as a
  leave exactly when its display name does not contain "joined"; and a message event
  is read by its body.
\<close>

theorem load_history_classifies_by_text:
  "length (messages (on_load_history history c)) = length history
   \<and> (\<forall>i < length history.
        messages (on_load_history history c) ! i =
          (if mentions (lit ''joined'') (history ! i) \<or> mentions (lit ''left'') (history ! i)
           then System_entry (message (history ! i)) (timestamp (history ! i))
           else Message_entry (userId (history ! i)) (userName (history ! i))
                  (message (history ! i)) (timestamp (history ! i))
                  (userName (history ! i) = userName_ref c)))
   \<and> online (on_load_history [] c) = Map.empty
   \<and> online (on_load_history (history @ [msg]) c) =
       (if mentions (lit ''joined'') msg then
          (if userName msg = (lit ''__proto__'') then online (on_load_history history c)
           else (online (on_load_history history c))(userName msg \<mapsto> userId msg))
        else if mentions (lit ''left'') msg then (online (on_load_history history c))(userName msg := None)
        else online (on_load_history history c))
   \<and> mentions (lit ''joined'') (joinEvent sid name now)
   \<and> mentions (lit ''left'') (leftEvent sid name now n)
   \<and> mentions (lit ''joined'') (leftEvent sid name now n) = includes_str name (lit ''joined'')
   \<and> mentions w (messageEvent sid name body now) = (body \<noteq> [] \<and> includes_str body w)"
proof -
  have a: "length (messages (on_load_history history c)) = length history"
    by (simp add: messages_on_load_history)
  have b: "\<forall>i < length history.
        messages (on_load_history history c) ! i =
          (if mentions (lit ''joined'') (history ! i) \<or> mentions (lit ''left'') (history ! i)
           then System_entry (message (history ! i)) (timestamp (history ! i))
           else Message_entry (userId (history ! i)) (userName (history ! i))
                  (message (history ! i)) (timestamp (history ! i))
                  (userName (history ! i) = userName_ref c))"
    by (simp add: messages_on_load_history timeline_entry_mentions)
  have c: "online (on_load_history [] c) = Map.empty"
    by (simp add: online_on_load_history replay_def)
  have d: "online (on_load_history (history @ [msg]) c) =
       (if mentions (lit ''joined'') msg then
          (if userName msg = (lit ''__proto__'') then online (on_load_history history c)
           else (online (on_load_history history c))(userName msg \<mapsto> userId msg))
        else if mentions (lit ''left'') msg then (online (on_load_history history c))(userName msg := None)
        else online (on_load_history history c))"
    unfolding online_on_load_history replay_snoc by (rule map_of_replay_step)
  have e: "mentions w (messageEvent sid name body now) = (body \<noteq> [] \<and> includes_str body w)"
    by (simp add: mentions_def messageEvent_def)
  from a b c d e mentions_joinEvent mentions_left_leftEvent mentions_joined_leftEvent
  show ?thesis by blast
qed

theorem load_history_classifies_by_text_witness:
  "(1::nat) < length [joinEvent (lit ''s1'') (lit ''alice'') (lit ''10:00 AM''),
                      messageEvent (lit ''s1'') (lit ''alice'') (lit ''hi'') (lit ''10:01 AM'')]
   \<and> messages (on_load_history
        [joinEvent (lit ''s1'') (lit ''alice'') (lit ''10:00 AM''), messageEvent (lit ''s1'') (lit ''alice'') (lit ''hi'') (lit ''10:01 AM'')]
        (init_client\<lparr>userName_ref := lit ''alice''\<rparr>)) ! 1
      = Message_entry (lit ''s1'') (lit ''alice'') (lit ''hi'') (lit ''10:01 AM'') True
   \<and> online (on_load_history
        ([joinEvent (lit ''s1'') (lit ''alice'') (lit ''10:00 AM''), messageEvent (lit ''s1'') (lit ''alice'') (lit ''hi'') (lit ''10:01 AM'')]
         @ [leftEvent (lit ''s1'') (lit ''alice'') (lit ''10:02 AM'') 0])
        (init_client\<lparr>userName_ref := lit ''alice''\<rparr>))
      = (online (on_load_history
          [joinEvent (lit ''s1'') (lit ''alice'') (lit ''10:00 AM''), messageEvent (lit ''s1'') (lit ''alice'') (lit ''hi'') (lit ''10:01 AM'')]
          (init_client\<lparr>userName_ref := lit ''alice''\<rparr>)))((lit ''alice'') := None)"
  using load_history_classifies_by_text
    [of "[joinEvent (lit ''s1'') (lit ''alice'') (lit ''10:00 AM''), messageEvent (lit ''s1'') (lit ''alice'') (lit ''hi'') (lit ''10:01 AM'')]"
        "init_client\<lparr>userName_ref := lit ''alice''\<rparr>"
        "leftEvent (lit ''s1'') (lit ''alice'') (lit ''10:02 AM'') 0"]
  by (simp add: init_client_def joinEvent_def messageEvent_def leftEvent_def mentions_def)

text \<open>
  C8, as the claim states it, fails on the length of the timeline: the replay maps
  every event of the snapshot to an entry, the leave included, so the four events give
  four entries, not three.
\<close>

theorem replay_example_counterexample:
  "length (messages (on_load_history
     (messageHistory (fst (run_server
        [User_join (lit ''s1'') (lit ''10:00 AM'') (lit ''alice''), Send_message (lit ''s1'') (lit ''10:01 AM'') (lit ''hi''),
         Disconnect (lit ''s1'') (lit ''10:02 AM''), User_join (lit ''s2'') (lit ''10:03 AM'') (lit ''bob'')]
        init_server)))
     init_client)) = 4
   \<and> length (messages (on_load_history
     (messageHistory (fst (run_server
        [User_join (lit ''s1'') (lit ''10:00 AM'') (lit ''alice''), Send_message (lit ''s1'') (lit ''10:01 AM'') (lit ''hi''),
         Disconnect (lit ''s1'') (lit ''10:02 AM''), User_join (lit ''s2'') (lit ''10:03 AM'') (lit ''bob'')]
        init_server)))
     init_client)) \<noteq> 3"
  by (simp add: init_server_def init_client_def user_join_def send_message_def disconnect_def
      Let_def push_history_def MAX_HISTORY_def joinEvent_def messageEvent_def leftEvent_def
      on_load_history_def replay_def replay_step_def mentions_def obj_set_def obj_delete_def
      object_entries_def is_array_index_def is_digit_def int_of_digits_def timeline_entry_def)

text \<open>
  C8, amended. The snapshot [Joined(alice), Message(alice, "hi"), Left(alice),
  Joined(bob)] is the history of the server after alice joins, says "hi" and
  disconnects and bob joins. Replayed by any client, it gives the online list of bob
  alone, and a timeline of exactly four entries: system (join), chat message, system
  (leave), system (join). The leave takes alice out of the online list and stays
  visible in the timeline.
\<close>

theorem replay_example:
  "messageHistory (fst (run_server
        [User_join (lit ''s1'') (lit ''10:00 AM'') (lit ''alice''), Send_message (lit ''s1'') (lit ''10:01 AM'') (lit ''hi''),
         Disconnect (lit ''s1'') (lit ''10:02 AM''), User_join (lit ''s2'') (lit ''10:03 AM'') (lit ''bob'')]
        init_server))
     = [joinEvent (lit ''s1'') (lit ''alice'') (lit ''10:00 AM''), messageEvent (lit ''s1'') (lit ''alice'') (lit ''hi'') (lit ''10:01 AM''),
        leftEvent (lit ''s1'') (lit ''alice'') (lit ''10:02 AM'') 0, joinEvent (lit ''s2'') (lit ''bob'') (lit ''10:03 AM'')]
   \<and> on_load_history
        [joinEvent (lit ''s1'') (lit ''alice'') (lit ''10:00 AM''), messageEvent (lit ''s1'') (lit ''alice'') (lit ''hi'') (lit ''10:01 AM''),
         leftEvent (lit ''s1'') (lit ''alice'') (lit ''10:02 AM'') 0, joinEvent (lit ''s2'') (lit ''bob'') (lit ''10:03 AM'')]
        c
     = c\<lparr>users_ref := [\<lparr>user_id = (lit ''s2''), user_name = (lit ''bob'')\<rparr>],
         messages := [System_entry (lit ''alice joined the chat'') (lit ''10:00 AM''),
                      Message_entry (lit ''s1'') (lit ''alice'') (lit ''hi'') (lit ''10:01 AM'') ((lit ''alice'') = userName_ref c),
                      System_entry (lit ''alice left the chat'') (lit ''10:02 AM''),
                      System_entry (lit ''bob joined the chat'') (lit ''10:03 AM'')]\<rparr>"
  by (simp add: init_server_def user_join_def send_message_def disconnect_def Let_def
      push_history_def MAX_HISTORY_def joinEvent_def messageEvent_def leftEvent_def
      on_load_history_def replay_def replay_step_def mentions_def obj_set_def obj_delete_def
      object_entries_def is_array_index_def is_digit_def int_of_digits_def timeline_entry_def)

theorem replay_example_witness:
  "user_name ` set (users_ref (on_load_history
        [joinEvent (lit ''s1'') (lit ''alice'') (lit ''10:00 AM''), messageEvent (lit ''s1'') (lit ''alice'') (lit ''hi'') (lit ''10:01 AM''),
         leftEvent (lit ''s1'') (lit ''alice'') (lit ''10:02 AM'') 0, joinEvent (lit ''s2'') (lit ''bob'') (lit ''10:03 AM'')]
        (init_client\<lparr>userName_ref := lit ''alice''\<rparr>))) = {(lit ''bob'')}
   \<and> messages (on_load_history
        [joinEvent (lit ''s1'') (lit ''alice'') (lit ''10:00 AM''), messageEvent (lit ''s1'') (lit ''alice'') (lit ''hi'') (lit ''10:01 AM''),
         leftEvent (lit ''s1'') (lit ''alice'') (lit ''10:02 AM'') 0, joinEvent (lit ''s2'') (lit ''bob'') (lit ''10:03 AM'')]
        (init_client\<lparr>userName_ref := lit ''alice''\<rparr>))
      = [System_entry (lit ''alice joined the chat'') (lit ''10:00 AM''),
         Message_entry (lit ''s1'') (lit ''alice'') (lit ''hi'') (lit ''10:01 AM'') True,
         System_entry (lit ''alice left the chat'') (lit ''10:02 AM''),
         System_entry (lit ''bob joined the chat'') (lit ''10:03 AM'')]"
  using replay_example [of "init_client\<lparr>userName_ref := lit ''alice''\<rparr>"]
  by (simp add: init_client_def)

subsection \<open>Time separators\<close>

text \<open>
  C9. At a position \<open>index\<close> of the timeline, a time separator is shown exactly when
  \<open>index > 0\<close> and the time label of the entry differs from the label of the entry
  before it. None is shown before the first entry, none between two entries with the
  same label, and none at a position outside the timeline.
\<close>

theorem time_separator_rule:
  "(index < length (messages c) \<longrightarrow>
      shouldShowTimeSeparator c index =
        (0 < index \<and>
         entry_timestamp (messages c ! index) \<noteq> entry_timestamp (messages c ! (index - 1))))
   \<and> \<not> shouldShowTimeSeparator c 0
   \<and> (0 < index \<and> index < length (messages c)
        \<and> entry_timestamp (messages c ! index) = entry_timestamp (messages c ! (index - 1))
        \<longrightarrow> \<not> shouldShowTimeSeparator c index)
   \<and> (length (messages c) \<le> index \<longrightarrow> \<not> shouldShowTimeSeparator c index)"
  by (auto simp add: shouldShowTimeSeparator_def nth_opt_def)

theorem time_separator_rule_witness:
  "(1::nat) < length (messages (init_client\<lparr>messages :=
       [System_entry (lit ''alice joined the chat'') (lit ''10:00 AM''),
        Message_entry (lit ''s1'') (lit ''alice'') (lit ''hi'') (lit ''10:00 AM'') True,
        Message_entry (lit ''s1'') (lit ''alice'') (lit ''there'') (lit ''10:01 AM'') True]\<rparr>))
   \<and> \<not> shouldShowTimeSeparator (init_client\<lparr>messages :=
       [System_entry (lit ''alice joined the chat'') (lit ''10:00 AM''),
        Message_entry (lit ''s1'') (lit ''alice'') (lit ''hi'') (lit ''10:00 AM'') True,
        Message_entry (lit ''s1'') (lit ''alice'') (lit ''there'') (lit ''10:01 AM'') True]\<rparr>) 1
   \<and> shouldShowTimeSeparator (init_client\<lparr>messages :=
       [System_entry (lit ''alice joined the chat'') (lit ''10:00 AM''),
        Message_entry (lit ''s1'') (lit ''alice'') (lit ''hi'') (lit ''10:00 AM'') True,
        Message_entry (lit ''s1'') (lit ''alice'') (lit ''there'') (lit ''10:01 AM'') True]\<rparr>) 2
   \<and> \<not> shouldShowTimeSeparator (init_client\<lparr>messages :=
       [System_entry (lit ''alice joined the chat'') (lit ''10:00 AM''),
        Message_entry (lit ''s1'') (lit ''alice'') (lit ''hi'') (lit ''10:00 AM'') True,
        Message_entry (lit ''s1'') (lit ''alice'') (lit ''there'') (lit ''10:01 AM'') True]\<rparr>) 3"
  using time_separator_rule [of 1 "init_client\<lparr>messages :=
       [System_entry (lit ''alice joined the chat'') (lit ''10:00 AM''),
        Message_entry (lit ''s1'') (lit ''alice'') (lit ''hi'') (lit ''10:00 AM'') True,
        Message_entry (lit ''s1'') (lit ''alice'') (lit ''there'') (lit ''10:01 AM'') True]\<rparr>"]
    time_separator_rule [of 2 "init_client\<lparr>messages :=
       [System_entry (lit ''alice joined the chat'') (lit ''10:00 AM''),
        Message_entry (lit ''s1'') (lit ''alice'') (lit ''hi'') (lit ''10:00 AM'') True,
        Message_entry (lit ''s1'') (lit ''alice'') (lit ''there'') (lit ''10:01 AM'') True]\<rparr>"]
    time_separator_rule [of 3 "init_client\<lparr>messages :=
       [System_entry (lit ''alice joined the chat'') (lit ''10:00 AM''),
        Message_entry (lit ''s1'') (lit ''alice'') (lit ''hi'') (lit ''10:00 AM'') True,
        Message_entry (lit ''s1'') (lit ''alice'') (lit ''there'') (lit ''10:01 AM'') True]\<rparr>"]
  by (simp add: init_client_def)

subsection \<open>Transport disconnect and leaving\<close>











end
